theory Spec2Isabelle
  imports Main
begin

section \<open>Markup\<close>

text \<open>
  The components of the repository (Logo, Navbar, Hero) are functions from props to a
  tree of elements. An attribute value is a string (\<^verbatim>\<open>href="/"\<close>), a style object
  (\<^verbatim>\<open>style={{ marginRight: "1rem" }}\<close>) or markup (\<^verbatim>\<open>avatar={<img ... />}\<close>); a
  fragment \<^verbatim>\<open><>...</>\<close> is the list of its children. The components imported from
  \<^verbatim>\<open>astro-boilerplate-components\<close> (Section, NavbarTwoColumns, NavMenu, NavMenuItem,
  HeroAvatar, HeroSocial) belong to a library; they stay in the tree as elements named
  after the component, with the props and children the source gives them. The text
  between tags is trimmed as JSX trims it: a line break and the blanks around it
  disappear at the ends of a text and become one blank between two lines of text.
  A string is the bytes of the source file, which is UTF-8.
\<close>

datatype attr = Str string | Style "(string \<times> string) list" | Jsx "node list"
  and node = Text string | Elem string "(string \<times> attr) list" "node list"

text \<open>
  Reading a tree: its nodes in document order (the markup held by the props of an element
  comes before its children, as it is written), its text, the attributes and the children
  of an element.
\<close>

fun elements :: "node \<Rightarrow> node list" and attr_elements :: "attr \<Rightarrow> node list" where
  "elements (Text s) = [Text s]"
| "elements (Elem t as cs) =
     Elem t as cs # concat (map (\<lambda>a. attr_elements (snd a)) as) @ concat (map elements cs)"
| "attr_elements (Str s) = []"
| "attr_elements (Style st) = []"
| "attr_elements (Jsx ns) = concat (map elements ns)"

fun text_content :: "node \<Rightarrow> string" where
  "text_content (Text s) = s"
| "text_content (Elem t as cs) = concat (map text_content cs)"

fun tag_of :: "node \<Rightarrow> string option" where
  "tag_of (Text s) = None"
| "tag_of (Elem t as cs) = Some t"

fun attr_of :: "string \<Rightarrow> node \<Rightarrow> attr option" where
  "attr_of k (Text s) = None"
| "attr_of k (Elem t as cs) = map_of as k"


definition tagged :: "string \<Rightarrow> node \<Rightarrow> node list" where
  "tagged t n = filter (\<lambda>e. tag_of e = Some t) (elements n)"



section \<open>The navbar\<close>

record ILogoProps =
  icon :: node
  name :: string

definition Logo :: "ILogoProps \<Rightarrow> node" where
  "Logo props =
     Elem ''div''
       [(''className'', Str ''flex items-center text-xl font-bold''),
        (''style'', Style [(''color'', ''rgba(25, 189, 236, 0.9)'')])]
       [icon props, Text (name props)]"

text \<open>
  \<^verbatim>\<open>const Navbar = () => (...)\<close> declares no parameter: whatever props the embedding
  page passes, the body does not read them.
\<close>

definition Navbar :: "'props \<Rightarrow> node" where
  "Navbar props =
     Elem ''Section'' []
       [Elem ''NavbarTwoColumns'' []
          [Elem ''a'' [(''href'', Str ''/'')]
             [Logo \<lparr>icon =
                      Elem ''img''
                        [(''src'', Str ''/assets/images/avatar.png''),
                         (''width'', Str ''20rem''),
                         (''style'', Style [(''marginRight'', ''1rem'')])] [],
                    name = ''The Data Lead''\<rparr>],
           Elem ''NavMenu'' []
             [Elem ''NavMenuItem'' [(''href'', Str ''/posts/'')] [Text ''Blog''],
              Elem ''NavMenuItem'' [(''href'', Str ''/'')] [Text ''GitHub''],
              Elem ''NavMenuItem'' [(''href'', Str ''/'')] [Text ''Twitter'']]]]"

text \<open>
  A navigation entry is a menu item seen as the pair of its label and its target.
\<close>

definition nav_entries :: "node \<Rightarrow> (string \<times> attr option) list" where
  "nav_entries n = map (\<lambda>e. (text_content e, attr_of ''href'' e)) (tagged ''NavMenuItem'' n)"

definition nav_labels :: "node \<Rightarrow> string list" where
  "nav_labels n = map fst (nav_entries n)"

text \<open>
  A target leaves the site when it names a scheme or a host: \<^verbatim>\<open>http://...\<close>,
  \<^verbatim>\<open>https://...\<close> or \<^verbatim>\<open>//host/...\<close>. A target that starts with one \<^verbatim>\<open>/\<close>
  is a path of the site itself.
\<close>

definition is_external :: "string \<Rightarrow> bool" where
  "is_external h \<longleftrightarrow>
     take 7 h = ''http://'' \<or> take 8 h = ''https://'' \<or> take 2 h = ''//''"

fun external_target :: "attr option \<Rightarrow> bool" where
  "external_target (Some (Str h)) = is_external h"
| "external_target _ = False"

section \<open>The hero banner\<close>





section \<open>Content files\<close>

text \<open>
  A content file opens with a header block between two \<^verbatim>\<open>---\<close> lines, one
  \<^verbatim>\<open>key: value\<close> pair a line. A value is written plain (\<^verbatim>\<open>title: Scala 101\<close>) or
  between single quotes (\<^verbatim>\<open>imgAlt: 'Image post 7'\<close>). There are three headers:
  lines 2 to 7 of \<^verbatim>\<open>src/pages/posts/scala-101.md\<close>, lines 2 to 7 of
  \<^verbatim>\<open>src/pages/posts/scala-oop.md\<close>, and the header of the post on data classes, which
  stands after the text of the second post (lines 748 to 753 of the same file). Each is
  given key by key, in the order of the file.
\<close>

datatype scalar = Plain string | Quoted string

type_synonym header = "(string \<times> scalar) list"

definition scala_101 :: header where
  "scala_101 =
     [(''layout'', Quoted ''@/templates/BasePost.astro''),
      (''title'', Plain ''Scala 101''),
      (''description'', Plain ''Learn the very basics of Scala 3''),
      (''pubDate'', Plain ''2024-02-018''),
      (''imgSrc'', Quoted ''/assets/images/articles/scala-101-1.png''),
      (''imgAlt'', Quoted ''Image post 7'')]"

definition scala_oop :: header where
  "scala_oop =
     [(''layout'', Quoted ''@/templates/BasePost.astro''),
      (''title'', Plain ''Scala 101''),
      (''description'', Plain ''OOP with Scala''),
      (''pubDate'', Plain ''2024-02-23''),
      (''imgSrc'', Quoted ''/assets/images/articles/scala-oop/thumbnail.png''),
      (''imgAlt'', Quoted ''Image post 7'')]"

definition data_classes :: header where
  "data_classes =
     [(''layout'', Quoted ''@/templates/BasePost.astro''),
      (''title'', Plain ''Data Classes''),
      (''description'', Plain ''The Scala killer feature you need in Python''),
      (''pubDate'', Plain ''2024-02-23''),
      (''imgSrc'', Quoted ''/assets/images/articles/data-classes/data-classes.png''),
      (''imgAlt'', Quoted ''Image post 7'')]"

definition posts :: "header list" where
  "posts = [scala_101, scala_oop, data_classes]"

definition header_invariant :: "header \<Rightarrow> bool" where
  "header_invariant h \<longleftrightarrow> map_of h ''title'' \<noteq> None \<and> map_of h ''pubDate'' \<noteq> None"

text \<open>
  A plain value is a date when it has the form year-month-day with four, two and two
  digits, as \<^verbatim>\<open>2024-02-23\<close> has. A quoted value is a string whatever it holds.
\<close>

definition is_digit :: "char \<Rightarrow> bool" where
  "is_digit c \<longleftrightarrow> c \<in> set ''0123456789''"

fun split_on :: "char \<Rightarrow> string \<Rightarrow> string list" where
  "split_on c [] = [[]]"
| "split_on c (x # xs) =
     (if x = c then [] # split_on c xs
      else (case split_on c xs of
              [] \<Rightarrow> [[x]]
            | f # fs \<Rightarrow> (x # f) # fs))"

definition is_date :: "string \<Rightarrow> bool" where
  "is_date s =
     (case split_on (CHR ''-'') s of
        [y, m, d] \<Rightarrow>
          length y = 4 \<and> length m = 2 \<and> length d = 2 \<and> list_all is_digit (y @ m @ d)
      | _ \<Rightarrow> False)"

fun holds_date :: "scalar \<Rightarrow> bool" where
  "holds_date (Plain s) = is_date s"
| "holds_date (Quoted s) = False"

fun quoted_string :: "scalar \<Rightarrow> bool" where
  "quoted_string (Plain s) = False"
| "quoted_string (Quoted s) = True"

section \<open>Page assembly\<close>

text \<open>
  Modelled from the spec: the page assembler. Every header names the template
  \<^verbatim>\<open>@/templates/BasePost.astro\<close>, which is not among the sources at hand. The spec gives
  its contract: the input is one content item; the output is a page that wraps the item's
  body in the shared layout, which includes the navbar and the head metadata; the one
  error is a missing required field (title, date), on which assembly fails and emits no
  page. The header values are read verbatim.
\<close>

datatype build_error = MissingField string

record page =
  meta_title :: scalar
  meta_pubDate :: scalar
  meta_description :: "scalar option"
  meta_imgSrc :: "scalar option"
  meta_imgAlt :: "scalar option"
  page_navbar :: node
  page_body :: "node list"

definition assemble :: "header \<Rightarrow> node list \<Rightarrow> build_error + page" where
  "assemble h body =
     (case map_of h ''title'' of
        None \<Rightarrow> Inl (MissingField ''title'')
      | Some t \<Rightarrow>
          (case map_of h ''pubDate'' of
             None \<Rightarrow> Inl (MissingField ''pubDate'')
           | Some d \<Rightarrow>
               Inr \<lparr>meta_title = t, meta_pubDate = d,
                    meta_description = map_of h ''description'',
                    meta_imgSrc = map_of h ''imgSrc'',
                    meta_imgAlt = map_of h ''imgAlt'',
                    page_navbar = Navbar (),
                    page_body = body\<rparr>))"

section \<open>Properties of the navbar\<close>

lemma Logo_text_content: "text_content (Logo props) = text_content (icon props) @ name props"
  by (simp add: Logo_def)

text \<open>
  C1. The navigation offers exactly three entries, Blog, GitHub and Twitter, and Blog
  targets \<^verbatim>\<open>/posts/\<close>. The GitHub and Twitter entries do not leave the site: both
  target \<^verbatim>\<open>/\<close>, the site root, the same target as the logo's link home. The third
  component of each triple tells whether the target is external.
\<close>

theorem navbar_entry_targets:
  "map (\<lambda>e. (fst e, snd e, external_target (snd e))) (nav_entries (Navbar props)) =
     [(''Blog'', Some (Str ''/posts/''), False),
      (''GitHub'', Some (Str ''/''), False),
      (''Twitter'', Some (Str ''/''), False)]"
  by (simp add: nav_entries_def tagged_def Navbar_def Logo_def is_external_def)



section \<open>Properties of the content files\<close>

text \<open>
  C6. Each of the three authored posts carries a title and a publication date in its
  header.
\<close>

theorem posts_header_invariant:
  "posts = [scala_101, scala_oop, data_classes] \<and> list_all header_invariant posts"
  by (simp add: posts_def header_invariant_def scala_101_def scala_oop_def data_classes_def)

text \<open>
  C10. Each of the three authored posts declares the layout
  \<^verbatim>\<open>'@/templates/BasePost.astro'\<close>, so the posts name one template between them.
\<close>

theorem posts_share_layout:
  "posts = [scala_101, scala_oop, data_classes]
   \<and> list_all (\<lambda>h. map_of h ''layout'' = Some (Quoted ''@/templates/BasePost.astro'')) posts
   \<and> remdups (map (\<lambda>h. map_of h ''layout'') posts) =
       [Some (Quoted ''@/templates/BasePost.astro'')]"
  by (simp add: posts_def scala_101_def scala_oop_def data_classes_def)

text \<open>
  C7. In all three headers \<^verbatim>\<open>imgSrc\<close> and \<^verbatim>\<open>layout\<close> hold quoted strings. The
  \<^verbatim>\<open>pubDate\<close> of scala-oop and of the post on data classes, \<^verbatim>\<open>2024-02-23\<close>, is a
  date; the \<^verbatim>\<open>pubDate\<close> of scala-101 is written \<^verbatim>\<open>2024-02-018\<close>, with a day of
  three digits, and is not a date.
\<close>

theorem scala_101_pubDate_not_date:
  "map_of scala_101 ''pubDate'' = Some (Plain ''2024-02-018'')
   \<and> \<not> holds_date (Plain ''2024-02-018'')
   \<and> map_of scala_oop ''pubDate'' = Some (Plain ''2024-02-23'')
   \<and> map_of data_classes ''pubDate'' = Some (Plain ''2024-02-23'')
   \<and> holds_date (Plain ''2024-02-23'')
   \<and> list_all (\<lambda>h. list_all (\<lambda>k. \<exists>s. map_of h k = Some (Quoted s)) [''imgSrc'', ''layout''])
        posts"
  by (simp add: scala_101_def scala_oop_def data_classes_def is_date_def is_digit_def posts_def)

section \<open>Properties of page assembly\<close>

lemma assemble_verbatim:
  "header_invariant h \<Longrightarrow>
   \<exists>p. assemble h body = Inr p
     \<and> Some (meta_title p) = map_of h ''title''
     \<and> Some (meta_pubDate p) = map_of h ''pubDate''
     \<and> meta_description p = map_of h ''description''
     \<and> meta_imgSrc p = map_of h ''imgSrc''
     \<and> meta_imgAlt p = map_of h ''imgAlt''
     \<and> page_body p = body"
  by (auto simp: header_invariant_def assemble_def split: option.splits)

lemma assemble_embeds_navbar:
  "assemble h body = Inr p \<Longrightarrow> nav_labels (page_navbar p) = [''Blog'', ''GitHub'', ''Twitter'']"
  by (auto simp: assemble_def nav_labels_def nav_entries_def tagged_def Navbar_def Logo_def
      split: option.splits)

text \<open>
  C2. The page assembled from the header of scala-101 carries the title
  \<^verbatim>\<open>Scala 101\<close>, the description \<^verbatim>\<open>Learn the very basics of Scala 3\<close> and the hero
  image \<^verbatim>\<open>/assets/images/articles/scala-101-1.png\<close> as authored. Its publication date is
  the authored text \<^verbatim>\<open>2024-02-018\<close>: that is not \<^verbatim>\<open>2024-02-18\<close>, and not a date.
\<close>

theorem scala_101_page_metadata:
  "\<exists>p. assemble scala_101 body = Inr p
     \<and> meta_title p = Plain ''Scala 101''
     \<and> meta_description p = Some (Plain ''Learn the very basics of Scala 3'')
     \<and> meta_imgSrc p = Some (Quoted ''/assets/images/articles/scala-101-1.png'')
     \<and> meta_pubDate p = Plain ''2024-02-018''
     \<and> meta_pubDate p \<noteq> Plain ''2024-02-18''
     \<and> \<not> holds_date (meta_pubDate p)"
  by (simp add: assemble_def scala_101_def is_date_def is_digit_def)

text \<open>
  C5. When the header lacks the title or the publication date, assembly fails with the
  name of a missing field and yields no page.
\<close>

theorem assemble_missing_field_fails:
  assumes "map_of h ''title'' = None \<or> map_of h ''pubDate'' = None"
  shows "(\<exists>f. assemble h body = Inl (MissingField f)) \<and> (\<forall>p. assemble h body \<noteq> Inr p)"
  using assms by (auto simp: assemble_def split: option.splits)

theorem assemble_missing_field_fails_witness:
  "map_of (filter (\<lambda>kv. fst kv \<noteq> ''pubDate'') scala_oop) ''pubDate'' = None
   \<and> assemble (filter (\<lambda>kv. fst kv \<noteq> ''pubDate'') scala_oop) [] = Inl (MissingField ''pubDate'')"
  using assemble_missing_field_fails [of "filter (\<lambda>kv. fst kv \<noteq> ''pubDate'') scala_oop" "[]"]
  by (simp add: scala_oop_def assemble_def)

section \<open>Properties of the hero banner\<close>



end
